theory Spec2Isabelle
  imports Complex_Main
begin

section \<open>Data model of app.py\<close>

text \<open>
  The module keeps three globals (\<open>buffered_data\<close>, \<open>is_logging\<close>, \<open>current_id\<close>) and a
  handle on a MongoDB collection. Each request handler is modelled as a function from the
  globals before the request to the outcome of the request and the globals after it.
  A handler that lets a Python exception escape is an outcome of its own: the globals keep
  whatever the handler had written before the exception was raised.

  Numbers are Python floats in the source and reals here. The handlers only store and
  compare them, except for the average of the prediction, whose two float64 operations
  are rounded explicitly (\<open>float64\<close> below).
\<close>

datatype py_error =
    KeyError string
  | Fault string

text \<open>One element of \<open>buffered_data\<close>: the dict built in \<open>receive_data\<close>.\<close>

record entry =
  HR :: real
  TEMP :: real
  datetime :: string

text \<open>The document assembled in \<open>stop_logging_stress\<close>.\<close>

record candidate_record =
  candidateId :: "string option"
  averageStress :: string
  stressStatus :: string
  biometrics :: "entry list"

text \<open>
  The globals. \<open>collection\<close> lists the documents handed to \<open>collection.insert_one\<close>,
  in call order, whether or not the call returned.
\<close>

record app_state =
  buffered_data :: "entry list"
  is_logging :: bool
  current_id :: "string option"
  collection :: "candidate_record list"

datatype json = JStr string | JNum real | JObj "(string \<times> json) list"

text \<open>What the caller of a route sees: a JSON body with an HTTP code, or an escaped exception.\<close>

datatype result =
    Response "(string \<times> json) list" nat
  | Unhandled py_error

section \<open>Python built-ins used by the handlers\<close>

text \<open>\<open>d[k]\<close> on a dict of strings: \<open>KeyError\<close> when the key is absent.\<close>

definition getitem :: "(string \<times> string) list \<Rightarrow> string \<Rightarrow> py_error + string" where
  "getitem d k = (case map_of d k of None \<Rightarrow> Inl (KeyError k) | Some v \<Rightarrow> Inr v)"

text \<open>\<open>not current_id\<close>: \<open>None\<close> and the empty string are falsy.\<close>

definition truthy :: "string option \<Rightarrow> bool" where
  "truthy v = (case v of None \<Rightarrow> False | Some s \<Rightarrow> s \<noteq> [])"

text \<open>The decimal digit \<open>d\<close> (below ten) as a character.\<close>

definition digit_char :: "nat \<Rightarrow> char" where
  "digit_char d = ''0123456789'' ! d"

function show_nat :: "nat \<Rightarrow> string" where
  "show_nat n = (if n < 10 then [digit_char n] else show_nat (n div 10) @ [digit_char (n mod 10)])"
  by pat_completeness auto
termination
  by (relation "measure (\<lambda>n. n)") auto

declare show_nat.simps [simp del]

definition round_half_even :: "real \<Rightarrow> int" where
  "round_half_even x =
     (let f = \<lfloor>x\<rfloor>; d = x - of_int f
      in if d < 1 / 2 then f else if 1 / 2 < d then f + 1 else if even f then f else f + 1)"

text \<open>
  Rounding to float64. \<open>bit_length\<close> is Python's \<open>int.bit_length\<close>; \<open>exponent2 x\<close> is
  the binary exponent of a positive \<open>x\<close>, the \<open>e\<close> with \<open>2^e \<le> x < 2^(e+1)\<close>;
  \<open>float64 x\<close> is the multiple of \<open>2^(e-52)\<close> nearest to \<open>x\<close>, ties to the even
  multiple, as IEEE 754 division and multiplication deliver it. The exponent range is
  not bounded: overflow to infinity and the subnormal grid are not modelled.
\<close>

function bit_length :: "nat \<Rightarrow> nat" where
  "bit_length n = (if n = 0 then 0 else Suc (bit_length (n div 2)))"
  by pat_completeness auto
termination
  by (relation "measure (\<lambda>n. n)") auto

declare bit_length.simps [simp del]

definition exponent2 :: "real \<Rightarrow> int" where
  "exponent2 x =
     (if 1 \<le> x then int (bit_length (nat \<lfloor>x\<rfloor>)) - 1
      else - int (bit_length (nat (\<lceil>1 / x\<rceil> - 1))))"

definition pow2 :: "int \<Rightarrow> real" where
  "pow2 k = (if 0 \<le> k then 2 ^ nat k else 1 / 2 ^ nat (- k))"

definition float64 :: "real \<Rightarrow> real" where
  "float64 x =
     (if x = 0 then 0
      else let u = pow2 (exponent2 \<bar>x\<bar> - 52)
           in sgn x * (real_of_int (round_half_even (\<bar>x\<bar> / u)) * u))"

text \<open>
  \<open>f"{x:.2f}"\<close> for a float \<open>x\<close>: sign, integer part, a point and two digits; Python
  prints the exact binary value of the float correctly rounded, ties to even.
\<close>

definition format_2f :: "real \<Rightarrow> string" where
  "format_2f x =
     (let c = nat (round_half_even (\<bar>x\<bar> * 100))
      in (if x < 0 then ''-'' else '''') @ show_nat (c div 100) @ ''.'' @
         [digit_char (c mod 100 div 10), digit_char (c mod 10)])"

section \<open>Stress prediction\<close>

text \<open>
  \<open>df["TEMP"].values\<close> for \<open>df = pd.DataFrame(data)\<close>: the frame of an empty list has
  no columns, so the lookup raises \<open>KeyError\<close>.
\<close>

definition column_TEMP :: "entry list \<Rightarrow> py_error + real list" where
  "column_TEMP data = (if data = [] then Inl (KeyError ''TEMP'') else Inr (map TEMP data))"

text \<open>\<open>df.drop(columns=["datetime"]).values\<close>: one row \<open>[HR, TEMP]\<close> per sample.\<close>

definition features :: "entry list \<Rightarrow> real list list" where
  "features data = map (\<lambda>e. [HR e, TEMP e]) data"

text \<open>
  The pickled classifier is not part of the repository: \<open>model_predict\<close> stands for
  \<open>load_model().predict\<close>. On an empty prediction vector numpy divides zero by zero and
  yields \<open>nan\<close>, which fails both comparisons and prints as \<open>nan\<close>.

  \<open>np.sum(P)\<close> is the exact sum of the predictions, as it is for class labels. The
  division rounds the quotient to float64 and the multiplication by 100 rounds again; the
  string is printed from that float. The two comparisons are made on the exact quotient:
  0.25 and 0.75 are float64 values, and for a float64 sum and a length below \<open>2^50\<close>
  the rounded quotient lies below either of them exactly when the exact quotient does.
\<close>

definition predict_stress_from_data ::
    "(real list list \<Rightarrow> real list) \<Rightarrow> entry list \<Rightarrow> py_error + (string \<times> string) list" where
  "predict_stress_from_data model_predict data =
     (case column_TEMP data of
        Inl e \<Rightarrow> Inl e
      | Inr temps \<Rightarrow>
          if sum_list (map (\<lambda>t. of_bool (t < 26 \<or> 38 < t)) temps) \<noteq> (0::nat)
          then Inr [(''status'', ''failure''),
                    (''message'', ''The temperature should be between 26 and 38'')]
          else
            let X = features data;
                P = model_predict X
            in if P = []
               then Inr [(''status'', ''success''), (''stress'', ''Overwhelmed''),
                         (''average_stress'', ''nan%'')]
               else
                 let avg_stress = sum_list P / real (length P * 2);
                     status = (if avg_stress < 0.25 then ''Resilient''
                               else if avg_stress < 0.75 then ''Adaptive''
                               else ''Overwhelmed'');
                     avg_stress100 = float64 (float64 avg_stress * 100)
                 in Inr [(''status'', ''success''), (''stress'', status),
                         (''average_stress'', format_2f avg_stress100 @ ''%'')])"

section \<open>Routes\<close>

definition jsonify_strs :: "(string \<times> string) list \<Rightarrow> json" where
  "jsonify_strs d = JObj (map (\<lambda>(k, v). (k, JStr v)) d)"

text \<open>\<open>POST /startLogging\<close>. The request body is a JSON object with string values.\<close>

definition start_logging_stress :: "(string \<rightharpoonup> string) \<Rightarrow> app_state \<Rightarrow> result \<times> app_state" where
  "start_logging_stress body s =
     (let s1 = s\<lparr>current_id := body ''id''\<rparr>
      in if \<not> truthy (current_id s1)
         then (Response [(''status'', JStr ''failure''), (''message'', JStr ''ID is required'')] 400, s1)
         else
           let s2 = s1\<lparr>is_logging := True\<rparr>;
               s3 = s2\<lparr>buffered_data := []\<rparr>
           in (Response [(''status'', JStr ''success''),
                         (''message'', JStr (''Logging started for ID '' @ the (current_id s3)))] 200,
               s3))"

text \<open>
  \<open>POST /stopLogging\<close>. \<open>insert_one\<close> stands for the MongoDB driver: \<open>None\<close> when the
  call returns, \<open>Some e\<close> when it raises \<open>e\<close>.
\<close>

definition stop_logging_stress ::
    "(real list list \<Rightarrow> real list) \<Rightarrow> (candidate_record \<Rightarrow> py_error option) \<Rightarrow> app_state
       \<Rightarrow> result \<times> app_state" where
  "stop_logging_stress model_predict insert_one s =
     (if is_logging s then
        (case predict_stress_from_data model_predict (buffered_data s) of
           Inl e \<Rightarrow> (Unhandled e, s)
         | Inr stress_result \<Rightarrow>
             (case getitem stress_result ''average_stress'' of
                Inl e \<Rightarrow> (Unhandled e, s)
              | Inr avg \<Rightarrow>
                  (case getitem stress_result ''stress'' of
                     Inl e \<Rightarrow> (Unhandled e, s)
                   | Inr st \<Rightarrow>
                       let candidate = \<lparr>candidateId = current_id s, averageStress = avg,
                                         stressStatus = st, biometrics = buffered_data s\<rparr>;
                           s1 = s\<lparr>collection := collection s @ [candidate]\<rparr>
                       in (case insert_one candidate of
                             Some e \<Rightarrow> (Unhandled e, s1)
                           | None \<Rightarrow>
                               (Response [(''status'', JStr ''success''),
                                          (''message'', JStr ''Logging stopped and data saved to MongoDB''),
                                          (''stress_result'', jsonify_strs stress_result)] 200,
                                s1\<lparr>buffered_data := [], is_logging := False, current_id := None\<rparr>)))))
      else (Response [(''status'', JStr ''failure''),
                      (''message'', JStr ''Logging is not currently active'')] 400, s))"

text \<open>
  \<open>POST /data\<close>. The body is a JSON object with numeric values; \<open>now\<close> is the formatted
  clock reading.
\<close>

definition receive_data_post :: "string \<Rightarrow> (string \<rightharpoonup> real) \<Rightarrow> app_state \<Rightarrow> result \<times> app_state" where
  "receive_data_post now data s =
     (let bpm = data ''bpm'';
          temp = data ''temperature''
      in case (bpm, temp) of
           (Some b, Some t) \<Rightarrow>
             (let new_entry = \<lparr>HR = b, TEMP = t, datetime = now\<rparr>
              in (Response [(''status'', JStr ''success'')] 200,
                  s\<lparr>buffered_data := buffered_data s @ [new_entry]\<rparr>))
         | _ \<Rightarrow>
             (Response [(''status'', JStr ''failure''),
                        (''message'', JStr ''Missing bpm or temperature'')] 400, s))"

text \<open>\<open>GET /data\<close>: the latest buffered sample.\<close>

definition receive_data_get :: "app_state \<Rightarrow> result \<times> app_state" where
  "receive_data_get s =
     (if buffered_data s \<noteq> []
      then (let latest_data = last (buffered_data s)
            in (Response [(''status'', JStr ''success''), (''bpm'', JNum (HR latest_data)),
                          (''temperature'', JNum (TEMP latest_data)),
                          (''datetime'', JStr (datetime latest_data))] 200, s))
      else (Response [(''status'', JStr ''failure''), (''message'', JStr ''No data available'')] 404, s))"

text \<open>
  \<open>POST /startAll\<close>. \<open>start_logging\<close> stands for the gaze module's start hook:
  \<open>None\<close> when it returns, \<open>Some e\<close> when it raises \<open>e\<close>.
\<close>

definition start_all_logging ::
    "(string \<rightharpoonup> string) \<Rightarrow> py_error option \<Rightarrow> app_state \<Rightarrow> result \<times> app_state" where
  "start_all_logging body start_logging s =
     (let s1 = s\<lparr>current_id := body ''id''\<rparr>
      in if \<not> truthy (current_id s1)
         then (Response [(''status'', JStr ''failure''), (''message'', JStr ''ID is required'')] 400, s1)
         else
           let s2 = s1\<lparr>is_logging := True\<rparr>;
               s3 = s2\<lparr>buffered_data := []\<rparr>
           in (case start_logging of
                 Some e \<Rightarrow> (Unhandled e, s3)
               | None \<Rightarrow>
                   (Response [(''status'', JStr ''success''),
                              (''message'', JStr ''Logging started for both stress and gaze.'')] 200,
                    s3)))"

section \<open>Notions of the specification\<close>


text \<open>The session invariant of the specification: an id is held exactly while logging.\<close>

definition session_invariant :: "app_state \<Rightarrow> bool" where
  "session_invariant s = ((current_id s \<noteq> None) = is_logging s)"

subsection \<open>Reading a formatted percentage back\<close>







section \<open>Sample inputs\<close>

text \<open>A three-level classifier on the heart-rate column, standing in for the pickled model.\<close>

definition hr_classifier :: "real list list \<Rightarrow> real list" where
  "hr_classifier X = map (\<lambda>row. if 100 < hd row then 2 else if 80 < hd row then 1 else 0) X"

definition sample :: "real \<Rightarrow> real \<Rightarrow> entry" where
  "sample h t = \<lparr>HR = h, TEMP = t, datetime = ''2025-01-01 10:00:00''\<rparr>"

definition insert_ok :: "candidate_record \<Rightarrow> py_error option" where
  "insert_ok r = None"

definition insert_down :: "candidate_record \<Rightarrow> py_error option" where
  "insert_down r = Some (Fault ''ServerSelectionTimeoutError'')"

definition idle :: app_state where
  "idle = \<lparr>buffered_data = [], is_logging = False, current_id = None, collection = []\<rparr>"

definition active :: "string \<Rightarrow> entry list \<Rightarrow> app_state" where
  "active cid buf = \<lparr>buffered_data = buf, is_logging = True, current_id = Some cid, collection = []\<rparr>"

section \<open>Facts about the prediction\<close>

lemma predict_empty:
  "predict_stress_from_data model_predict [] = Inl (KeyError ''TEMP'')"
  by (simp add: predict_stress_from_data_def column_TEMP_def)

lemma predict_out_of_range:
  assumes "e \<in> set data" and "TEMP e < 26 \<or> 38 < TEMP e"
  shows "predict_stress_from_data model_predict data =
           Inr [(''status'', ''failure''),
                (''message'', ''The temperature should be between 26 and 38'')]"
proof -
  from assms(1) have ne: "data \<noteq> []" by auto
  have "TEMP e \<in> set (map TEMP data)"
    using assms(1) by simp
  moreover have "\<not> (26 \<le> TEMP e \<and> TEMP e \<le> 38)"
    using assms(2) by auto
  ultimately have "\<not> (\<forall>t\<in>set (map TEMP data). 26 \<le> t \<and> t \<le> 38)"
    by blast
  then have "sum_list (map (\<lambda>t. of_bool (t < 26 \<or> 38 < t)) (map TEMP data)) \<noteq> (0::nat)"
    by (auto simp: not_less not_le)
  with ne show ?thesis
    by (simp add: predict_stress_from_data_def column_TEMP_def)
qed

lemma predict_in_range:
  assumes "data \<noteq> []" and "\<forall>e\<in>set data. 26 \<le> TEMP e \<and> TEMP e \<le> 38"
    and "model_predict (features data) = P" and "P \<noteq> []"
  shows "predict_stress_from_data model_predict data =
           Inr [(''status'', ''success''),
                (''stress'', if sum_list P / real (length P * 2) < 0.25 then ''Resilient''
                             else if sum_list P / real (length P * 2) < 0.75 then ''Adaptive''
                             else ''Overwhelmed''),
                (''average_stress'',
                 format_2f (float64 (float64 (sum_list P / real (length P * 2)) * 100)) @ ''%'')]"
proof -
  have "\<forall>t\<in>set (map TEMP data). 26 \<le> t \<and> t \<le> 38"
    using assms(2) by simp
  then have "sum_list (map (\<lambda>t. of_bool (t < 26 \<or> 38 < t)) (map TEMP data)) = (0::nat)"
    by (auto simp: not_less not_le)
  with assms(1,3,4) show ?thesis
    by (simp add: predict_stress_from_data_def column_TEMP_def Let_def)
qed

lemma predict_has_keys:
  assumes "data \<noteq> []" and "\<forall>e\<in>set data. 26 \<le> TEMP e \<and> TEMP e \<le> 38"
  shows "\<exists>st avg. predict_stress_from_data model_predict data =
           Inr [(''status'', ''success''), (''stress'', st), (''average_stress'', avg)]"
proof (cases "model_predict (features data) = []")
  case True
  have "\<forall>t\<in>set (map TEMP data). 26 \<le> t \<and> t \<le> 38"
    using assms(2) by simp
  then have "sum_list (map (\<lambda>t. of_bool (t < 26 \<or> 38 < t)) (map TEMP data)) = (0::nat)"
    by (auto simp: not_less not_le)
  with assms(1) True show ?thesis
    by (simp add: predict_stress_from_data_def column_TEMP_def Let_def)
next
  case False
  from predict_in_range [of data model_predict "model_predict (features data)"] assms False
  show ?thesis by blast
qed

section \<open>Facts about the formatting\<close>
















section \<open>Facts about float64 rounding\<close>








text \<open>
  Two averages at which the roundings show: 23 over 160 and 1 over 4000 print as 14.37
  and 0.03, where the exact values 14.375 and 0.025 would print as 14.38 and 0.02.
\<close>

lemma percent_float64_examples:
  "format_2f (float64 (float64 (23 / 160) * 100)) = ''14.37''"
  "format_2f (float64 (float64 (1 / 4000) * 100)) = ''0.03''"
  "format_2f (23 / 160 * 100) = ''14.38''"
  "format_2f (1 / 4000 * 100) = ''0.02''"
  by (simp_all add: format_2f_def float64_def exponent2_def pow2_def round_half_even_def
      bit_length.simps show_nat.simps digit_char_def Let_def)

section \<open>Stopping a session\<close>

text \<open>
  C9. When a buffered temperature lies outside [26, 38], \<open>stop_logging_stress\<close> on an
  active session ends in the \<open>KeyError\<close> raised while the record is assembled: whatever
  the driver would have done, no document is handed to it, and the buffer, the logging flag
  and the candidate id are exactly as before.
\<close>

theorem stop_out_of_range_leaves_state:
  assumes "is_logging s" and "e \<in> set (buffered_data s)" and "TEMP e < 26 \<or> 38 < TEMP e"
  shows "stop_logging_stress model_predict insert_one s =
           (Unhandled (KeyError ''average_stress''), s)"
  using assms(1) predict_out_of_range [OF assms(2,3), of model_predict]
  by (simp add: stop_logging_stress_def getitem_def)

theorem stop_out_of_range_leaves_state_witness:
  "is_logging (active ''cand7'' [sample 72 30, sample 75 39]) \<and>
   sample 75 39 \<in> set (buffered_data (active ''cand7'' [sample 72 30, sample 75 39])) \<and>
   (TEMP (sample 75 39) < 26 \<or> 38 < TEMP (sample 75 39)) \<and>
   stop_logging_stress hr_classifier insert_ok (active ''cand7'' [sample 72 30, sample 75 39]) =
     (Unhandled (KeyError ''average_stress''), active ''cand7'' [sample 72 30, sample 75 39])"
proof -
  have a: "is_logging (active ''cand7'' [sample 72 30, sample 75 39])"
    by (simp add: active_def)
  have b: "sample 75 39 \<in> set (buffered_data (active ''cand7'' [sample 72 30, sample 75 39]))"
    by (simp add: active_def)
  have c: "TEMP (sample 75 39) < 26 \<or> 38 < TEMP (sample 75 39)"
    by (simp add: sample_def)
  from stop_out_of_range_leaves_state [OF a b c, of hr_classifier insert_ok] a b c
  show ?thesis by simp
qed

text \<open>
  C3. The out-of-range answer of the prediction has no \<open>average_stress\<close> key, so at
  \<open>/stopLogging\<close> the handler raises \<open>KeyError\<close> instead of answering with the
  \<open>failure\<close> status: evaluated on an active session holding one sample at 40 degrees.
\<close>

theorem stop_out_of_range_unhandled:
  "stop_logging_stress hr_classifier insert_ok (active ''cand1'' [sample 72 40]) =
     (Unhandled (KeyError ''average_stress''), active ''cand1'' [sample 72 40])"
  by (simp add: stop_logging_stress_def predict_stress_from_data_def column_TEMP_def
      getitem_def active_def sample_def)

text \<open>
  C5. With an empty buffer the data frame has no \<open>TEMP\<close> column: \<open>/stopLogging\<close> on
  an active session raises \<open>KeyError\<close>, evaluated on a session that was just started.
\<close>

theorem stop_empty_buffer_unhandled:
  "stop_logging_stress hr_classifier insert_ok (active ''cand1'' []) =
     (Unhandled (KeyError ''TEMP''), active ''cand1'' [])"
  by (simp add: stop_logging_stress_def predict_stress_from_data_def column_TEMP_def active_def)

text \<open>
  C4, as the claim states it, fails: with a classifiable buffer and a driver that raises,
  the exception leaves \<open>stop_logging_stress\<close> before the three resetting assignments, so
  the session is still active and still holds its sample and its id.
\<close>

theorem stop_insert_fault_no_reset:
  "fst (stop_logging_stress hr_classifier insert_down (active ''cand4'' [sample 72 30])) =
     Unhandled (Fault ''ServerSelectionTimeoutError'') \<and>
   is_logging (snd (stop_logging_stress hr_classifier insert_down (active ''cand4'' [sample 72 30]))) \<and>
   buffered_data (snd (stop_logging_stress hr_classifier insert_down (active ''cand4'' [sample 72 30]))) =
     [sample 72 30] \<and>
   current_id (snd (stop_logging_stress hr_classifier insert_down (active ''cand4'' [sample 72 30]))) =
     Some ''cand4''"
  by (simp add: stop_logging_stress_def predict_stress_from_data_def column_TEMP_def features_def
      hr_classifier_def getitem_def active_def sample_def insert_down_def Let_def)

text \<open>
  C4, amended. On an active session whose buffer classifies (non-empty, every temperature
  in [26, 38]) exactly one document is handed to the driver. When the driver returns, the
  answer is a 200 and the buffer is empty, logging is off and the id is cleared. When the
  driver raises, that exception reaches the caller and the buffer, the logging flag and the
  id are left as they were: the reset depends on the persistence outcome.
\<close>

theorem stop_reset_follows_insert:
  assumes "is_logging s" and "buffered_data s \<noteq> []"
    and "\<forall>e\<in>set (buffered_data s). 26 \<le> TEMP e \<and> TEMP e \<le> 38"
  shows "\<exists>c. collection (snd (stop_logging_stress model_predict insert_one s)) = collection s @ [c] \<and>
           candidateId c = current_id s \<and> biometrics c = buffered_data s \<and>
           (case insert_one c of
              None \<Rightarrow>
                (\<exists>body. fst (stop_logging_stress model_predict insert_one s) = Response body 200) \<and>
                buffered_data (snd (stop_logging_stress model_predict insert_one s)) = [] \<and>
                \<not> is_logging (snd (stop_logging_stress model_predict insert_one s)) \<and>
                current_id (snd (stop_logging_stress model_predict insert_one s)) = None
            | Some e \<Rightarrow>
                fst (stop_logging_stress model_predict insert_one s) = Unhandled e \<and>
                buffered_data (snd (stop_logging_stress model_predict insert_one s)) = buffered_data s \<and>
                is_logging (snd (stop_logging_stress model_predict insert_one s)) \<and>
                current_id (snd (stop_logging_stress model_predict insert_one s)) = current_id s)"
proof -
  from predict_has_keys [OF assms(2,3), of model_predict]
  obtain st avg where p: "predict_stress_from_data model_predict (buffered_data s) =
      Inr [(''status'', ''success''), (''stress'', st), (''average_stress'', avg)]"
    by blast
  let ?c = "\<lparr>candidateId = current_id s, averageStress = avg, stressStatus = st,
             biometrics = buffered_data s\<rparr>"
  show ?thesis
  proof (cases "insert_one ?c")
    case None
    with assms(1) p show ?thesis
      by (intro exI [of _ ?c]) (simp add: stop_logging_stress_def getitem_def Let_def)
  next
    case (Some e)
    with assms(1) p show ?thesis
      by (intro exI [of _ ?c]) (simp add: stop_logging_stress_def getitem_def Let_def)
  qed
qed

theorem stop_reset_follows_insert_witness:
  "is_logging (active ''cand4'' [sample 72 30]) \<and> buffered_data (active ''cand4'' [sample 72 30]) \<noteq> [] \<and>
   buffered_data (active ''cand4'' [sample 72 30]) = [sample 72 30] \<and>
   26 \<le> TEMP (sample 72 30) \<and> TEMP (sample 72 30) \<le> 38 \<and>
   buffered_data (snd (stop_logging_stress hr_classifier insert_ok (active ''cand4'' [sample 72 30]))) = [] \<and>
   \<not> is_logging (snd (stop_logging_stress hr_classifier insert_ok (active ''cand4'' [sample 72 30]))) \<and>
   is_logging (snd (stop_logging_stress hr_classifier insert_down (active ''cand4'' [sample 72 30]))) \<and>
   fst (stop_logging_stress hr_classifier insert_down (active ''cand4'' [sample 72 30])) =
     Unhandled (Fault ''ServerSelectionTimeoutError'')"
proof -
  have a: "is_logging (active ''cand4'' [sample 72 30])"
    by (simp add: active_def)
  have b: "buffered_data (active ''cand4'' [sample 72 30]) \<noteq> []"
    by (simp add: active_def)
  have c: "\<forall>e\<in>set (buffered_data (active ''cand4'' [sample 72 30])). 26 \<le> TEMP e \<and> TEMP e \<le> 38"
    by (simp add: active_def sample_def)
  from stop_reset_follows_insert [OF a b c, of hr_classifier insert_ok]
  have ok: "buffered_data (snd (stop_logging_stress hr_classifier insert_ok (active ''cand4'' [sample 72 30]))) = [] \<and>
            \<not> is_logging (snd (stop_logging_stress hr_classifier insert_ok (active ''cand4'' [sample 72 30])))"
    by (auto simp: insert_ok_def)
  from stop_reset_follows_insert [OF a b c, of hr_classifier insert_down]
  have down: "is_logging (snd (stop_logging_stress hr_classifier insert_down (active ''cand4'' [sample 72 30]))) \<and>
              fst (stop_logging_stress hr_classifier insert_down (active ''cand4'' [sample 72 30])) =
                Unhandled (Fault ''ServerSelectionTimeoutError'')"
    by (auto simp: insert_down_def)
  have d: "buffered_data (active ''cand4'' [sample 72 30]) = [sample 72 30]"
    by (simp add: active_def)
  have e: "26 \<le> TEMP (sample 72 30) \<and> TEMP (sample 72 30) \<le> 38"
    by (simp add: sample_def)
  from a b d e ok down show ?thesis by blast
qed

section \<open>Starting a session\<close>

text \<open>
  C6, as the claim states it, fails: \<open>start_all_logging\<close> writes the three globals before
  it calls the gaze hook, so when the hook raises on an idle application the exception
  reaches the caller with the session already active.
\<close>

theorem start_all_hook_fault_active:
  "fst (start_all_logging [''id'' \<mapsto> ''cand6''] (Some (Fault ''camera'')) idle) =
     Unhandled (Fault ''camera'') \<and>
   is_logging (snd (start_all_logging [''id'' \<mapsto> ''cand6''] (Some (Fault ''camera'')) idle)) \<and>
   current_id (snd (start_all_logging [''id'' \<mapsto> ''cand6''] (Some (Fault ''camera'')) idle)) =
     Some ''cand6'' \<and>
   \<not> is_logging idle \<and> current_id idle = None"
  by (simp add: start_all_logging_def truthy_def idle_def Let_def)

text \<open>
  C6, amended. Called with a non-empty id, when the gaze hook raises, \<open>start_all_logging\<close>
  propagates that exception, and the session has by then taken the new id, is logging and
  has an empty buffer: the start is not rolled back.
\<close>

theorem start_all_hook_fault_not_rolled_back:
  assumes "truthy (body ''id'')"
  shows "start_all_logging body (Some e) s =
           (Unhandled e, s\<lparr>current_id := body ''id'', is_logging := True, buffered_data := []\<rparr>)"
  using assms by (simp add: start_all_logging_def Let_def)

theorem start_all_hook_fault_not_rolled_back_witness:
  "truthy ([''id'' \<mapsto> ''cand6''] ''id'') \<and>
   start_all_logging [''id'' \<mapsto> ''cand6''] (Some (Fault ''camera'')) idle =
     (Unhandled (Fault ''camera''),
      idle\<lparr>current_id := [''id'' \<mapsto> ''cand6''] ''id'', is_logging := True, buffered_data := []\<rparr>)"
proof -
  have a: "truthy ([''id'' \<mapsto> ''cand6''] ''id'')"
    by (simp add: truthy_def)
  from start_all_hook_fault_not_rolled_back
    [where body = "[''id'' \<mapsto> ''cand6'']" and e = "Fault ''camera''" and s = idle] a
  show ?thesis by blast
qed

text \<open>
  C7. \<open>start_logging_stress\<close> assigns \<open>current_id\<close> before it checks it: a start request
  without an id, sent while a session is active, is refused with a 400 and leaves the
  session logging with no id.
\<close>

theorem start_without_id_drops_current_id:
  "start_logging_stress Map.empty (active ''cand1'' [sample 72 30]) =
     (Response [(''status'', JStr ''failure''), (''message'', JStr ''ID is required'')] 400,
      \<lparr>buffered_data = [sample 72 30], is_logging = True, current_id = None, collection = []\<rparr>)"
  by (simp add: start_logging_stress_def truthy_def active_def Let_def)

text \<open>The other paths keep the invariant.\<close>

lemma start_accepted_invariant:
  "truthy (body ''id'') \<Longrightarrow> session_invariant (snd (start_logging_stress body s))"
  by (auto simp: start_logging_stress_def session_invariant_def truthy_def Let_def
      split: option.splits)

lemma start_all_accepted_invariant:
  "truthy (body ''id'') \<Longrightarrow> session_invariant (snd (start_all_logging body hook s))"
  by (auto simp: start_all_logging_def session_invariant_def truthy_def Let_def
      split: option.splits)

lemma receive_data_post_invariant:
  "session_invariant s \<Longrightarrow> session_invariant (snd (receive_data_post now data s))"
  by (auto simp: receive_data_post_def session_invariant_def Let_def split: option.splits)

lemma stop_invariant:
  "session_invariant s \<Longrightarrow> session_invariant (snd (stop_logging_stress model_predict insert_one s))"
  by (auto simp: stop_logging_stress_def session_invariant_def Let_def
      split: sum.splits option.splits)

section \<open>Receiving samples\<close>

text \<open>
  C8. A \<open>POST /data\<close> whose body gives both \<open>bpm\<close> and \<open>temperature\<close> appends the
  sample to the buffer and answers 200 with status success, whatever the logging flag is;
  a body in which either is missing is answered with a 400.
\<close>

theorem receive_data_post_buffers:
  "(data ''bpm'' = Some b \<and> data ''temperature'' = Some t \<longrightarrow>
      receive_data_post now data s =
        (Response [(''status'', JStr ''success'')] 200,
         s\<lparr>buffered_data := buffered_data s @ [\<lparr>HR = b, TEMP = t, datetime = now\<rparr>]\<rparr>)) \<and>
   (data ''bpm'' = None \<or> data ''temperature'' = None \<longrightarrow>
      fst (receive_data_post now data s) =
        Response [(''status'', JStr ''failure''),
                  (''message'', JStr ''Missing bpm or temperature'')] 400)"
  by (auto simp: receive_data_post_def Let_def split: option.splits)

theorem receive_data_post_buffers_witness:
  "\<not> is_logging idle \<and>
   receive_data_post ''2025-01-01 10:00:00'' [''bpm'' \<mapsto> 72, ''temperature'' \<mapsto> 30] idle =
     (Response [(''status'', JStr ''success'')] 200,
      idle\<lparr>buffered_data := buffered_data idle @
              [\<lparr>HR = 72, TEMP = 30, datetime = ''2025-01-01 10:00:00''\<rparr>]\<rparr>) \<and>
   fst (receive_data_post ''2025-01-01 10:00:00'' [''bpm'' \<mapsto> 72] idle) =
     Response [(''status'', JStr ''failure''),
               (''message'', JStr ''Missing bpm or temperature'')] 400"
proof -
  have a: "\<not> is_logging idle"
    by (simp add: idle_def)
  from receive_data_post_buffers
    [where data = "[''bpm'' \<mapsto> 72, ''temperature'' \<mapsto> 30]" and b = 72 and t = 30
       and now = "''2025-01-01 10:00:00''" and s = idle]
  have both: "receive_data_post ''2025-01-01 10:00:00'' [''bpm'' \<mapsto> 72, ''temperature'' \<mapsto> 30] idle =
     (Response [(''status'', JStr ''success'')] 200,
      idle\<lparr>buffered_data := buffered_data idle @
              [\<lparr>HR = 72, TEMP = 30, datetime = ''2025-01-01 10:00:00''\<rparr>]\<rparr>)"
    by simp
  from receive_data_post_buffers
    [where data = "[''bpm'' \<mapsto> 72]" and b = 72 and t = 30
       and now = "''2025-01-01 10:00:00''" and s = idle]
  have missing: "fst (receive_data_post ''2025-01-01 10:00:00'' [''bpm'' \<mapsto> 72] idle) =
     Response [(''status'', JStr ''failure''),
               (''message'', JStr ''Missing bpm or temperature'')] 400"
    by simp
  from a both missing show ?thesis by blast
qed

text \<open>
  C10. A \<open>POST /data\<close> whose body lacks \<open>bpm\<close> or \<open>temperature\<close> is answered with the
  400 failure and changes nothing: the buffer and the other globals are as before.
\<close>

theorem receive_data_post_missing_unchanged:
  assumes "data ''bpm'' = None \<or> data ''temperature'' = None"
  shows "receive_data_post now data s =
           (Response [(''status'', JStr ''failure''),
                      (''message'', JStr ''Missing bpm or temperature'')] 400, s)"
  using assms by (auto simp: receive_data_post_def Let_def split: option.splits)

theorem receive_data_post_missing_unchanged_witness:
  "([''temperature'' \<mapsto> (31::real)] ''bpm'' = None \<or>
    [''temperature'' \<mapsto> (31::real)] ''temperature'' = None) \<and>
   receive_data_post ''2025-01-01 10:00:05'' [''temperature'' \<mapsto> 31] (active ''cand10'' [sample 72 30]) =
     (Response [(''status'', JStr ''failure''),
                (''message'', JStr ''Missing bpm or temperature'')] 400,
      active ''cand10'' [sample 72 30])"
proof -
  have a: "[''temperature'' \<mapsto> (31::real)] ''bpm'' = None \<or>
           [''temperature'' \<mapsto> (31::real)] ''temperature'' = None"
    by simp
  from receive_data_post_missing_unchanged
    [where data = "[''temperature'' \<mapsto> 31]" and now = "''2025-01-01 10:00:05''"
       and s = "active ''cand10'' [sample 72 30]"] a
  show ?thesis by blast
qed

section \<open>Classification\<close>






end
